theory Spec2Isabelle
  imports Main "HOL-Library.Word"
begin

section \<open>VM register synchronisation and the debug invalidity guard (hphp/runtime/vm/vm-regs.cpp)\<close>

text \<open>
  The translation unit keeps four thread-local variables (\<open>tl_regState\<close>, \<open>rds::tl_base\<close>,
  \<open>AssertVMUnused::is_protected\<close>, \<open>tl_top_prot\<close>) and the canonical register bundle
  \<open>vmRegs()\<close>.  They are the fields of one explicit per-thread state record that every
  operation takes and returns.  A failed assertion, a failed \<open>always_assert\<close> and a
  dereference of a pointer that designates no object end the process; they are the \<open>Inl\<close>
  results of the operations.
\<close>

subsection \<open>Data\<close>

type_synonym addr = "64 word"
type_synonym Offset = "32 word"

datatype VMRegState = CLEAN | DIRTY

text \<open>What the constructor reads of a \<open>Func\<close>: \<open>base()\<close> and the identity of \<open>unit()\<close>.\<close>

record Func =
  base :: Offset
  unit :: nat

text \<open>What the constructor reads of an \<open>ActRec\<close>.\<close>

record ActRec =
  m_func :: Func
  m_soff :: Offset
  numArgs :: nat
  resumed :: bool

text \<open>\<open>vmRegs()\<close>: program counter, frame pointer (a nullable \<open>ActRec*\<close>) and stack top.\<close>

record VMRegs =
  pc :: addr
  fp :: "addr option"
  stack_top :: addr

record VMRegAnchor =
  m_old :: VMRegState

record AssertVMUnused =
  m_oldBase :: "addr option"
  m_oldState :: VMRegState
  m_oldProt :: bool

datatype prot = PROT_READ | PROT_READ_WRITE

text \<open>
  The calls that leave the translation unit towards the segment module and the operating
  system.  \<open>ThreadInit old new\<close>: \<open>rds::threadInit()\<close> ran while \<open>rds::tl_base\<close> was \<open>old\<close>
  and bound the segment at \<open>new\<close>.  \<open>ThreadExit b\<close>: \<open>rds::threadExit()\<close> ran while
  \<open>rds::tl_base\<close> was \<open>b\<close>.  \<open>Mprotect b len p\<close>: \<open>mprotect(b, len, p)\<close>.
\<close>

datatype sys_event =
    ThreadInit "addr option" addr
  | ThreadExit "addr option"
  | Mprotect addr "64 word" prot

text \<open>
  The per-thread state.  \<open>guardAt\<close> is the memory that holds the \<open>AssertVMUnused\<close> objects,
  by address, since \<open>tl_top_prot\<close> points at one of them and the disabler reads its fields
  through that pointer.  \<open>sys_log\<close> lists the external calls made so far, newest first.
\<close>

record thread_state =
  tl_regState :: VMRegState
  vmRegs :: VMRegs
  tl_base :: "addr option"
  is_protected :: bool
  tl_top_prot :: "addr option"
  guardAt :: "addr \<Rightarrow> AssertVMUnused option"
  sys_log :: "sys_event list"

datatype abort =
    AssertFailed string
  | AlwaysAssertFailed string
  | BadPointer
  | SyncFatal

text \<open>
  The collaborators whose code is outside this translation unit, taken as parameters:
  \<^item> \<open>assertions_enabled\<close>: the build does not define \<open>NDEBUG\<close>, so that \<open>assert(e)\<close>
    checks \<open>e\<close>; with \<open>NDEBUG\<close> the macro expands to nothing;
  \<^item> \<open>sizeof_TypedValue\<close>: the size of one stack slot, the unit of the pointer
    arithmetic on \<open>(TypedValue*)ar\<close>;
  \<^item> \<open>actRecAt\<close>: the activation records in memory, by address;
  \<^item> \<open>getOuterVMFrame\<close>: \<open>g_context->getOuterVMFrame\<close>, which may return \<open>nullptr\<close>;
  \<^item> \<open>unit_at\<close>: \<open>Unit::at\<close> of the unit with the given identity;
  \<^item> \<open>isValidAddress\<close>: \<open>vmStack().isValidAddress\<close>;
  \<^item> \<open>native_stack_aligned\<close>, \<open>fullSync\<close>: see \<open>assert_native_stack_aligned\<close> and
    \<open>syncVMRegs\<close> below;
  \<^item> \<open>mmap_result k\<close>: the base of the segment that \<open>rds::threadInit()\<close> binds when it is
    the \<open>k\<close>-th external call of the thread; \<open>mprotect_result k\<close>: what \<open>mprotect\<close> returns
    when it is the \<open>k\<close>-th external call; \<open>persistentSection_begin b\<close>:
    \<open>rds::persistentSection().begin()\<close> while \<open>rds::tl_base\<close> is \<open>b\<close>.
\<close>

record vm_env =
  assertions_enabled :: bool
  sizeof_TypedValue :: nat
  actRecAt :: "addr \<Rightarrow> ActRec option"
  getOuterVMFrame :: "addr \<Rightarrow> addr option"
  unit_at :: "nat \<Rightarrow> Offset \<Rightarrow> addr"
  isValidAddress :: "addr \<Rightarrow> bool"
  native_stack_aligned :: bool
  fullSync :: "thread_state \<Rightarrow> VMRegs option"
  mmap_result :: "nat \<Rightarrow> addr"
  mprotect_result :: "nat \<Rightarrow> int"
  persistentSection_begin :: "addr \<Rightarrow> addr"

subsection \<open>VMRegAnchor\<close>

text \<open>
  \<open>VMRegAnchor::VMRegAnchor(ActRec* ar)\<close>, statement by statement: \<open>m_old\<close> is initialised
  from \<open>tl_regState\<close>; the flag is asserted \<open>DIRTY\<close> and set \<open>CLEAN\<close>; \<open>prevAr\<close> is looked
  up and \<open>prevAr->m_func\<close> read (a null or dangling \<open>prevAr\<close> ends the process there);
  \<open>ar\<close> is asserted not resumed; the stack top is written and asserted valid; \<open>pc\<close> and
  \<open>fp\<close> are written.
\<close>

definition VMRegAnchor_ar ::
  "vm_env \<Rightarrow> addr \<Rightarrow> thread_state \<Rightarrow> abort + (VMRegAnchor \<times> thread_state)" where
  "VMRegAnchor_ar env ar s =
    (let anchor = \<lparr>m_old = tl_regState s\<rparr> in
     if assertions_enabled env \<and> tl_regState s \<noteq> DIRTY
     then Inl (AssertFailed ''tl_regState == VMRegState::DIRTY'')
     else
       let s1 = s\<lparr>tl_regState := CLEAN\<rparr> in
       case getOuterVMFrame env ar of
         None \<Rightarrow> Inl BadPointer
       | Some prevAr \<Rightarrow>
         (case actRecAt env prevAr of
            None \<Rightarrow> Inl BadPointer
          | Some prev \<Rightarrow>
            (let prevF = m_func prev in
             case actRecAt env ar of
               None \<Rightarrow> Inl BadPointer
             | Some a \<Rightarrow>
               if assertions_enabled env \<and> resumed a
               then Inl (AssertFailed ''!ar->resumed()'')
               else
                 let top = ar - of_nat (numArgs a * sizeof_TypedValue env);
                     s2 = s1\<lparr>vmRegs := (vmRegs s1)\<lparr>stack_top := top\<rparr>\<rparr>
                 in
                 if assertions_enabled env \<and> \<not> isValidAddress env (stack_top (vmRegs s2))
                 then Inl (AssertFailed ''vmStack().isValidAddress((uintptr_t)vmsp())'')
                 else
                   let s3 = s2\<lparr>vmRegs := (vmRegs s2)
                              \<lparr>pc := unit_at env (unit prevF) (base prevF + m_soff a)\<rparr>\<rparr>;
                       s4 = s3\<lparr>vmRegs := (vmRegs s3)\<lparr>fp := Some prevAr\<rparr>\<rparr>
                   in Inr (anchor, s4))))"

text \<open>
  The same constructor, statement by statement, together with the thread state at the
  moment it ends, whether it returns or the process is ended inside it: what it had
  written by then is visible in the second component.
\<close>

definition VMRegAnchor_ar_run ::
  "vm_env \<Rightarrow> addr \<Rightarrow> thread_state \<Rightarrow> (abort + VMRegAnchor) \<times> thread_state" where
  "VMRegAnchor_ar_run env ar s =
    (let anchor = \<lparr>m_old = tl_regState s\<rparr> in
     if assertions_enabled env \<and> tl_regState s \<noteq> DIRTY
     then (Inl (AssertFailed ''tl_regState == VMRegState::DIRTY''), s)
     else
       let s1 = s\<lparr>tl_regState := CLEAN\<rparr> in
       case getOuterVMFrame env ar of
         None \<Rightarrow> (Inl BadPointer, s1)
       | Some prevAr \<Rightarrow>
         (case actRecAt env prevAr of
            None \<Rightarrow> (Inl BadPointer, s1)
          | Some prev \<Rightarrow>
            (let prevF = m_func prev in
             case actRecAt env ar of
               None \<Rightarrow> (Inl BadPointer, s1)
             | Some a \<Rightarrow>
               if assertions_enabled env \<and> resumed a
               then (Inl (AssertFailed ''!ar->resumed()''), s1)
               else
                 let top = ar - of_nat (numArgs a * sizeof_TypedValue env);
                     s2 = s1\<lparr>vmRegs := (vmRegs s1)\<lparr>stack_top := top\<rparr>\<rparr>
                 in
                 if assertions_enabled env \<and> \<not> isValidAddress env (stack_top (vmRegs s2))
                 then (Inl (AssertFailed ''vmStack().isValidAddress((uintptr_t)vmsp())''), s2)
                 else
                   let s3 = s2\<lparr>vmRegs := (vmRegs s2)
                              \<lparr>pc := unit_at env (unit prevF) (base prevF + m_soff a)\<rparr>\<rparr>;
                       s4 = s3\<lparr>vmRegs := (vmRegs s3)\<lparr>fp := Some prevAr\<rparr>\<rparr>
                   in (Inr anchor, s4))))"

text \<open>
  Modelled from the spec: \<open>assert_native_stack_aligned\<close> (declared in a header that is not
  among the sources).  The spec: the calling thread's native stack must satisfy the
  platform's alignment requirement, checked, fatal if violated.
\<close>

definition assert_native_stack_aligned :: "vm_env \<Rightarrow> abort + unit" where
  "assert_native_stack_aligned env =
    (if native_stack_aligned env then Inr () else Inl (AssertFailed ''native stack aligned''))"

text \<open>
  Modelled from the spec: \<open>jit::syncVMRegs\<close> (hphp/runtime/vm/jit/fixup.h is not among the
  sources).  The spec: the full synchroniser inspects the native register contents and
  writes a canonical register bundle; it always succeeds or is fatal; on return the flag
  is \<open>CLEAN\<close>.
\<close>

definition syncVMRegs :: "vm_env \<Rightarrow> thread_state \<Rightarrow> abort + thread_state" where
  "syncVMRegs env s =
    (case fullSync env s of
       None \<Rightarrow> Inl SyncFatal
     | Some r \<Rightarrow> Inr (s\<lparr>vmRegs := r, tl_regState := CLEAN\<rparr>))"

text \<open>\<open>VMRegAnchor::VMRegAnchor()\<close>.\<close>

definition VMRegAnchor_full ::
  "vm_env \<Rightarrow> thread_state \<Rightarrow> abort + (VMRegAnchor \<times> thread_state)" where
  "VMRegAnchor_full env s =
    (let anchor = \<lparr>m_old = tl_regState s\<rparr> in
     case assert_native_stack_aligned env of
       Inl e \<Rightarrow> Inl e
     | Inr _ \<Rightarrow>
       (case syncVMRegs env s of
          Inl e \<Rightarrow> Inl e
        | Inr s1 \<Rightarrow> Inr (anchor, s1)))"

text \<open>
  Modelled from the spec: \<open>VMRegAnchor::~VMRegAnchor\<close> (defined in vm-regs.h, which is not
  among the sources).  The spec: release restores the RegisterStateFlag that existed
  before construction and does not reverse any write made to the canonical bundle.
\<close>

definition VMRegAnchor_dtor :: "VMRegAnchor \<Rightarrow> thread_state \<Rightarrow> thread_state" where
  "VMRegAnchor_dtor anchor s = s\<lparr>tl_regState := m_old anchor\<rparr>"

subsection \<open>AssertVMUnused and AssertVMUnusedDisabler\<close>

text \<open>The code of this subsection is compiled only when \<open>NDEBUG\<close> is not defined.\<close>

text \<open>
  Modelled from the spec: \<open>rds::threadInit\<close> (the segment module is not among the
  sources).  The spec: it reinitialises a throwaway segment for the thread.  The call is
  recorded in the log with the handle it found, and the handle of the new segment is
  left in \<open>rds::tl_base\<close>.
\<close>

definition threadInit :: "vm_env \<Rightarrow> thread_state \<Rightarrow> thread_state" where
  "threadInit env s =
    (let b = mmap_result env (length (sys_log s)) in
     s\<lparr>tl_base := Some b, sys_log := ThreadInit (tl_base s) b # sys_log s\<rparr>)"

text \<open>
  Modelled from the spec: \<open>rds::threadExit\<close> (the segment module is not among the
  sources).  The spec: it tears down the segment the thread has bound.  The call is
  recorded in the log with the handle it found.
\<close>

definition threadExit :: "thread_state \<Rightarrow> thread_state" where
  "threadExit s = s\<lparr>sys_log := ThreadExit (tl_base s) # sys_log s\<rparr>"

text \<open>The bits of a nullable pointer: \<open>nullptr\<close> is address 0.\<close>

definition ptr_bits :: "addr option \<Rightarrow> addr" where
  "ptr_bits p = (case p of None \<Rightarrow> 0 | Some a \<Rightarrow> a)"

text \<open>\<open>protect()\<close>.\<close>

definition protect :: "vm_env \<Rightarrow> thread_state \<Rightarrow> abort + thread_state" where
  "protect env s =
    (let s1 = s\<lparr>tl_base := None\<rparr>;
         s2 = s1\<lparr>tl_regState := DIRTY\<rparr>;
         s3 = s2\<lparr>is_protected := True\<rparr>;
         s4 = threadInit env s3;
         protlen = persistentSection_begin env (ptr_bits (tl_base s4)) - ptr_bits (tl_base s4);
         result = mprotect_result env (length (sys_log s4));
         s5 = s4\<lparr>sys_log := Mprotect (ptr_bits (tl_base s4)) protlen PROT_READ # sys_log s4\<rparr>
     in if result = 0 then Inr s5 else Inl (AlwaysAssertFailed ''result == 0''))"

text \<open>\<open>deprotect(base, state, prot)\<close>.\<close>

definition deprotect ::
  "addr option \<Rightarrow> VMRegState \<Rightarrow> bool \<Rightarrow> thread_state \<Rightarrow> thread_state" where
  "deprotect b state prt s =
    (let s1 = threadExit s;
         s2 = s1\<lparr>is_protected := prt\<rparr>;
         s3 = s2\<lparr>tl_regState := state\<rparr>
     in s3\<lparr>tl_base := b\<rparr>)"

text \<open>
  \<open>AssertVMUnused::AssertVMUnused()\<close> for the object at address \<open>this\<close>: the member
  initialisers run first, then the body.
\<close>

definition AssertVMUnused_ctor ::
  "vm_env \<Rightarrow> addr \<Rightarrow> thread_state \<Rightarrow> abort + thread_state" where
  "AssertVMUnused_ctor env this s =
    (let g = \<lparr>m_oldBase = tl_base s, m_oldState = tl_regState s, m_oldProt = is_protected s\<rparr>;
         s0 = s\<lparr>guardAt := (guardAt s)(this \<mapsto> g)\<rparr>
     in if tl_base s0 = None then Inr s0
        else
          let s1 = (if tl_top_prot s0 = None then s0\<lparr>tl_top_prot := Some this\<rparr> else s0)
          in protect env s1)"

text \<open>\<open>AssertVMUnused::~AssertVMUnused()\<close> for the object at address \<open>this\<close>.\<close>

definition AssertVMUnused_dtor :: "addr \<Rightarrow> thread_state \<Rightarrow> abort + thread_state" where
  "AssertVMUnused_dtor this s =
    (case guardAt s this of
       None \<Rightarrow> Inl BadPointer
     | Some g \<Rightarrow>
       if m_oldBase g = None then Inr s
       else
         let s1 = deprotect (m_oldBase g) (m_oldState g) (m_oldProt g) s
         in Inr (if tl_top_prot s1 = Some this then s1\<lparr>tl_top_prot := None\<rparr> else s1))"

text \<open>\<open>AssertVMUnusedDisabler::AssertVMUnusedDisabler()\<close>.\<close>

definition AssertVMUnusedDisabler_ctor :: "thread_state \<Rightarrow> abort + thread_state" where
  "AssertVMUnusedDisabler_ctor s =
    (case tl_top_prot s of
       None \<Rightarrow> Inr s
     | Some p \<Rightarrow>
       (case guardAt s p of
          None \<Rightarrow> Inl BadPointer
        | Some g \<Rightarrow> Inr (deprotect (m_oldBase g) (m_oldState g) (m_oldProt g) s)))"

text \<open>\<open>AssertVMUnusedDisabler::~AssertVMUnusedDisabler()\<close>.\<close>

definition AssertVMUnusedDisabler_dtor :: "vm_env \<Rightarrow> thread_state \<Rightarrow> abort + thread_state" where
  "AssertVMUnusedDisabler_dtor env s =
    (if tl_top_prot s \<noteq> None then protect env s else Inr s)"

text \<open>
  Scoped use.  A disabler is an automatic object: it is constructed at the start of a
  block and destructed at its end, and the block may hold further disablers, one after
  the other and one inside the other.  \<open>DScope ds\<close> is a disabler whose block holds the
  disablers \<open>ds\<close> in sequence.  \<open>guard_scope\<close> is a block that constructs one
  \<open>AssertVMUnused\<close> at \<open>this\<close>, runs the disablers \<open>ds\<close> and destructs the guard.
\<close>

datatype dscope = DScope "dscope list"

fun run_scope :: "vm_env \<Rightarrow> dscope \<Rightarrow> thread_state \<Rightarrow> abort + thread_state"
  and run_scopes :: "vm_env \<Rightarrow> dscope list \<Rightarrow> thread_state \<Rightarrow> abort + thread_state" where
  "run_scope env (DScope ds) s =
    (case AssertVMUnusedDisabler_ctor s of
       Inl e \<Rightarrow> Inl e
     | Inr s1 \<Rightarrow>
       (case run_scopes env ds s1 of
          Inl e \<Rightarrow> Inl e
        | Inr s2 \<Rightarrow> AssertVMUnusedDisabler_dtor env s2))"
| "run_scopes env [] s = Inr s"
| "run_scopes env (d # ds) s =
    (case run_scope env d s of
       Inl e \<Rightarrow> Inl e
     | Inr s1 \<Rightarrow> run_scopes env ds s1)"

definition guard_scope ::
  "vm_env \<Rightarrow> addr \<Rightarrow> dscope list \<Rightarrow> thread_state \<Rightarrow> abort + thread_state" where
  "guard_scope env this ds s =
    (case AssertVMUnused_ctor env this s of
       Inl e \<Rightarrow> Inl e
     | Inr s1 \<Rightarrow>
       (case run_scopes env ds s1 of
          Inl e \<Rightarrow> Inl e
        | Inr s2 \<Rightarrow> AssertVMUnused_dtor this s2))"

text \<open>The triple that the guard saves and restores.\<close>

definition triple :: "thread_state \<Rightarrow> addr option \<times> VMRegState \<times> bool" where
  "triple s = (tl_base s, tl_regState s, is_protected s)"

text \<open>
  The pointer in \<open>tl_top_prot\<close>, when there is one, designates a guard object: the
  disabler's constructor dereferences it.
\<close>

definition top_guard_live :: "thread_state \<Rightarrow> bool" where
  "top_guard_live s = (case tl_top_prot s of None \<Rightarrow> True | Some g \<Rightarrow> guardAt s g \<noteq> None)"

subsection \<open>A two-frame call chain\<close>

text \<open>
  A callee frame at \<open>0x1000\<close> with two arguments and saved return offset 5, called from a
  frame at \<open>0x2000\<close> whose function has base offset 100 in unit 3; stack slots of 8
  bytes; a thread whose segment is bound at \<open>0x7E0000000000\<close>, with no guard active.
  The environment takes the build mode and the callee record as arguments.
\<close>

definition p5_callee :: ActRec where
  "p5_callee = \<lparr>m_func = \<lparr>base = 300, unit = 7\<rparr>, m_soff = 5, numArgs = 2, resumed = False\<rparr>"

definition p5_resumed :: ActRec where
  "p5_resumed = p5_callee\<lparr>resumed := True\<rparr>"

definition p5_caller :: ActRec where
  "p5_caller = \<lparr>m_func = \<lparr>base = 100, unit = 3\<rparr>, m_soff = 0, numArgs = 0, resumed = False\<rparr>"

definition p5_regs :: VMRegs where
  "p5_regs = \<lparr>pc = 0x530069, fp = Some 0x2000, stack_top = 0x0FF0\<rparr>"

definition p5_env :: "bool \<Rightarrow> ActRec \<Rightarrow> vm_env" where
  "p5_env dbg callee =
    \<lparr>assertions_enabled = dbg,
     sizeof_TypedValue = 8,
     actRecAt = (\<lambda>p. if p = 0x1000 then Some callee
                     else if p = 0x2000 then Some p5_caller else None),
     getOuterVMFrame = (\<lambda>p. if p = 0x1000 then Some 0x2000 else None),
     unit_at = (\<lambda>u off. 0x500000 + of_nat u * 0x10000 + ucast off),
     isValidAddress = (\<lambda>a. 0x800 \<le> a \<and> a \<le> 0x8000),
     native_stack_aligned = True,
     fullSync = (\<lambda>s. Some p5_regs),
     mmap_result = (\<lambda>k. 0x7F0000000000 + of_nat k * 0x100000),
     mprotect_result = (\<lambda>k. 0),
     persistentSection_begin = (\<lambda>b. b + 0x80000)\<rparr>"

definition p5_env_mprotect_fails :: vm_env where
  "p5_env_mprotect_fails = (p5_env True p5_callee)\<lparr>mprotect_result := (\<lambda>k. - 1)\<rparr>"

definition p5_state :: "VMRegState \<Rightarrow> thread_state" where
  "p5_state f =
    \<lparr>tl_regState = f,
     vmRegs = \<lparr>pc = 0, fp = None, stack_top = 0\<rparr>,
     tl_base = Some 0x7E0000000000,
     is_protected = False,
     tl_top_prot = None,
     guardAt = (\<lambda>p. None),
     sys_log = []\<rparr>"

text \<open>The thread of \<open>p5_state CLEAN\<close> once a guard at \<open>0x7FFF0000\<close> has been constructed.\<close>

definition p5_guarded :: thread_state where
  "p5_guarded =
    \<lparr>tl_regState = DIRTY,
     vmRegs = \<lparr>pc = 0, fp = None, stack_top = 0\<rparr>,
     tl_base = Some 0x7F0000000000,
     is_protected = True,
     tl_top_prot = Some 0x7FFF0000,
     guardAt = (\<lambda>p. None)(0x7FFF0000 \<mapsto>
        \<lparr>m_oldBase = Some 0x7E0000000000, m_oldState = CLEAN, m_oldProt = False\<rparr>),
     sys_log = [Mprotect 0x7F0000000000 0x80000 PROT_READ, ThreadInit None 0x7F0000000000]\<rparr>"

section \<open>Properties\<close>

subsection \<open>The two readings of the frame-local constructor agree\<close>

lemma VMRegAnchor_ar_run_agrees:
  "VMRegAnchor_ar env ar s =
    (case VMRegAnchor_ar_run env ar s of
       (Inl e, t) \<Rightarrow> Inl e
     | (Inr anchor, t) \<Rightarrow> Inr (anchor, t))"
  by (simp add: VMRegAnchor_ar_def VMRegAnchor_ar_run_def Let_def split: option.splits)

subsection \<open>What protect and deprotect compute\<close>

lemma protect_eq:
  "protect env s =
    (if mprotect_result env (Suc (length (sys_log s))) = 0
     then Inr (s\<lparr>tl_base := Some (mmap_result env (length (sys_log s))),
                 tl_regState := DIRTY, is_protected := True,
                 sys_log := Mprotect (mmap_result env (length (sys_log s)))
                    (persistentSection_begin env (mmap_result env (length (sys_log s)))
                      - mmap_result env (length (sys_log s))) PROT_READ
                  # ThreadInit None (mmap_result env (length (sys_log s))) # sys_log s\<rparr>)
     else Inl (AlwaysAssertFailed ''result == 0''))"
  by (simp add: protect_def threadInit_def ptr_bits_def Let_def)

lemma deprotect_eq:
  "deprotect b st p s =
     s\<lparr>tl_base := b, tl_regState := st, is_protected := p,
       sys_log := ThreadExit (tl_base s) # sys_log s\<rparr>"
  by (simp add: deprotect_def threadExit_def Let_def)

subsection \<open>The top-level reference and the guard memory\<close>

lemma ctor_top:
  "AssertVMUnused_ctor env this s = Inr s' \<Longrightarrow>
   tl_top_prot s' = (if tl_base s \<noteq> None \<and> tl_top_prot s = None then Some this else tl_top_prot s)"
  by (auto simp: AssertVMUnused_ctor_def protect_eq Let_def split: if_splits)

lemma dtor_top:
  "AssertVMUnused_dtor this s = Inr s' \<Longrightarrow> guardAt s this = Some G \<Longrightarrow>
   tl_top_prot s' = (if m_oldBase G \<noteq> None \<and> tl_top_prot s = Some this then None else tl_top_prot s)"
  by (auto simp: AssertVMUnused_dtor_def deprotect_eq Let_def split: if_splits option.splits)

lemma guard_ctor_total:
  "\<forall>k. mprotect_result env k = 0 \<Longrightarrow> \<exists>s'. AssertVMUnused_ctor env this s = Inr s'"
  by (simp add: AssertVMUnused_ctor_def protect_eq Let_def)

lemma guard_ctor_saved:
  "AssertVMUnused_ctor env this s = Inr s1 \<Longrightarrow>
   guardAt s1 = (guardAt s)(this \<mapsto>
     \<lparr>m_oldBase = tl_base s, m_oldState = tl_regState s, m_oldProt = is_protected s\<rparr>)"
  by (auto simp: AssertVMUnused_ctor_def protect_eq Let_def split: if_splits)

lemma guard_ctor_live:
  assumes "AssertVMUnused_ctor env this s = Inr s1" and "top_guard_live s"
  shows "top_guard_live s1"
  using assms guard_ctor_saved [OF assms(1)] ctor_top [OF assms(1)]
  by (auto simp: top_guard_live_def split: option.splits if_splits)

lemma guard_dtor_total:
  "guardAt s this \<noteq> None \<Longrightarrow> \<exists>s'. AssertVMUnused_dtor this s = Inr s'"
  by (auto simp: AssertVMUnused_dtor_def Let_def)

lemma guard_dtor_frame:
  "AssertVMUnused_dtor this s = Inr s' \<Longrightarrow> guardAt s' = guardAt s"
  by (auto simp: AssertVMUnused_dtor_def deprotect_eq Let_def split: option.splits if_splits)

lemma guard_dtor_restores:
  "guardAt s2 this = Some \<lparr>m_oldBase = Some b, m_oldState = st, m_oldProt = p\<rparr> \<Longrightarrow>
   \<exists>s3. AssertVMUnused_dtor this s2 = Inr s3 \<and> triple s3 = (Some b, st, p)"
  by (simp add: AssertVMUnused_dtor_def deprotect_eq Let_def triple_def)

subsection \<open>Disablers leave the guard memory and the top-level reference alone\<close>

lemma disabler_ctor_frame:
  "AssertVMUnusedDisabler_ctor s = Inr s' \<Longrightarrow>
   guardAt s' = guardAt s \<and> tl_top_prot s' = tl_top_prot s"
  by (auto simp: AssertVMUnusedDisabler_ctor_def deprotect_eq split: option.splits)

lemma disabler_dtor_frame:
  "AssertVMUnusedDisabler_dtor env s = Inr s' \<Longrightarrow>
   guardAt s' = guardAt s \<and> tl_top_prot s' = tl_top_prot s"
  by (auto simp: AssertVMUnusedDisabler_dtor_def protect_eq split: if_splits)

lemma run_scope_frame:
  "run_scope env d s = Inr s' \<Longrightarrow> guardAt s' = guardAt s \<and> tl_top_prot s' = tl_top_prot s"
  and run_scopes_frame:
  "run_scopes env ds s = Inr s' \<Longrightarrow> guardAt s' = guardAt s \<and> tl_top_prot s' = tl_top_prot s"
proof (induction env d s and env ds s arbitrary: s' and s' rule: run_scope_run_scopes.induct)
  case (1 env ds s)
  from "1.prems" obtain s1 s2 where c: "AssertVMUnusedDisabler_ctor s = Inr s1"
    and r: "run_scopes env ds s1 = Inr s2" and d: "AssertVMUnusedDisabler_dtor env s2 = Inr s'"
    by (auto split: sum.splits)
  from "1.IH" [OF c r] disabler_ctor_frame [OF c] disabler_dtor_frame [OF d]
  show ?case by simp
next
  case (2 env s)
  then show ?case by simp
next
  case (3 env d ds s)
  from "3.prems" obtain s1 where r1: "run_scope env d s = Inr s1"
    and r2: "run_scopes env ds s1 = Inr s'"
    by (auto split: sum.splits)
  from "3.IH"(1) [OF r1] "3.IH"(2) [OF r1 r2] show ?case by simp
qed

lemma top_guard_live_cong:
  "guardAt s' = guardAt s \<and> tl_top_prot s' = tl_top_prot s \<Longrightarrow>
   top_guard_live s' = top_guard_live s"
  by (simp add: top_guard_live_def split: option.splits)

lemma disabler_ctor_total:
  "top_guard_live s \<Longrightarrow> \<exists>s'. AssertVMUnusedDisabler_ctor s = Inr s'"
  by (auto simp: AssertVMUnusedDisabler_ctor_def top_guard_live_def split: option.splits)

lemma disabler_dtor_total:
  "\<forall>k. mprotect_result env k = 0 \<Longrightarrow> \<exists>s'. AssertVMUnusedDisabler_dtor env s = Inr s'"
  by (simp add: AssertVMUnusedDisabler_dtor_def protect_eq)

lemma run_scope_total:
  "\<forall>k. mprotect_result env k = 0 \<Longrightarrow> top_guard_live s \<Longrightarrow> \<exists>s'. run_scope env d s = Inr s'"
  and run_scopes_total:
  "\<forall>k. mprotect_result env k = 0 \<Longrightarrow> top_guard_live s \<Longrightarrow> \<exists>s'. run_scopes env ds s = Inr s'"
proof (induction env d s and env ds s rule: run_scope_run_scopes.induct)
  case (1 env ds s)
  from disabler_ctor_total [OF "1.prems"(2)] obtain s1
    where c: "AssertVMUnusedDisabler_ctor s = Inr s1" ..
  have l1: "top_guard_live s1"
    using top_guard_live_cong [OF disabler_ctor_frame [OF c]] "1.prems"(2) by simp
  from "1.IH" [OF c "1.prems"(1) l1] obtain s2 where r: "run_scopes env ds s1 = Inr s2" ..
  from disabler_dtor_total [OF "1.prems"(1)] obtain s3
    where d: "AssertVMUnusedDisabler_dtor env s2 = Inr s3" ..
  from c r d show ?case by simp
next
  case (2 env s)
  then show ?case by simp
next
  case (3 env d ds s)
  from "3.IH"(1) [OF "3.prems"] obtain s1 where r1: "run_scope env d s = Inr s1" ..
  have l1: "top_guard_live s1"
    using top_guard_live_cong [OF run_scope_frame [OF r1]] "3.prems"(2) by simp
  from "3.IH"(2) [OF r1 "3.prems"(1) l1] obtain s2 where "run_scopes env ds s1 = Inr s2" ..
  with r1 show ?case by simp
qed

section \<open>Frame-local reconstruction\<close>

text \<open>
  Claim C1.  On a frame \<open>ar\<close> at address \<open>0x1000\<close> that is not resumed, with two
  arguments, saved return offset 5 and stack slots of 8 bytes, whose outer frame is
  \<open>caller\<close> with function base offset 100, and with the flag \<open>DIRTY\<close> on entry, the
  constructor returns and leaves \<open>pc = unit.at(105)\<close> in the caller's unit,
  \<open>stack top = 0x1000 - 2 * 8 = 0x0FF0\<close> and \<open>fp = caller\<close>; the flag is then \<open>CLEAN\<close>.
  The frames are readable, and where assertions are compiled in the reconstructed stack
  top is an address of the thread's stack, as it is for a frame that lives on that stack.
\<close>

theorem frame_local_reconstruction_P5:
  assumes "tl_regState s = DIRTY"
    and "actRecAt env ar = Some a" and "\<not> resumed a"
    and "getOuterVMFrame env ar = Some caller" and "actRecAt env caller = Some c"
    and "base (m_func c) = 100" and "m_soff a = 5" and "numArgs a = 2"
    and "sizeof_TypedValue env = 8" and "ar = 0x1000"
    and "assertions_enabled env \<longrightarrow> isValidAddress env 0x0FF0"
  shows "\<exists>anchor s'. VMRegAnchor_ar env ar s = Inr (anchor, s') \<and>
           pc (vmRegs s') = unit_at env (unit (m_func c)) 105 \<and>
           stack_top (vmRegs s') = 0x0FF0 \<and>
           fp (vmRegs s') = Some caller \<and>
           tl_regState s' = CLEAN"
  using assms by (simp add: VMRegAnchor_ar_def Let_def)

text \<open>The two-frame chain of the previous section, in a build with assertions.\<close>

theorem frame_local_reconstruction_P5_witness:
  "tl_regState (p5_state DIRTY) = DIRTY \<and>
   actRecAt (p5_env True p5_callee) 0x1000 = Some p5_callee \<and> \<not> resumed p5_callee \<and>
   getOuterVMFrame (p5_env True p5_callee) 0x1000 = Some 0x2000 \<and>
   isValidAddress (p5_env True p5_callee) 0x0FF0 \<and>
   (\<exists>anchor s'.
      VMRegAnchor_ar (p5_env True p5_callee) 0x1000 (p5_state DIRTY) = Inr (anchor, s') \<and>
      pc (vmRegs s') = 0x530069 \<and> stack_top (vmRegs s') = 0x0FF0 \<and>
      fp (vmRegs s') = Some 0x2000 \<and> tl_regState s' = CLEAN)"
  using frame_local_reconstruction_P5 [of "p5_state DIRTY" "p5_env True p5_callee" "0x1000"
      p5_callee "0x2000" p5_caller]
  by (simp add: p5_env_def p5_state_def p5_callee_def p5_caller_def)

section \<open>The invalidity guard\<close>

text \<open>
  Claim C2.  A guard constructed while a segment is bound runs \<open>protect\<close>:
  \<open>rds::threadInit\<close> is entered with the handle cleared and binds a throwaway segment,
  the flag is \<open>DIRTY\<close>, \<open>is_protected\<close> is true, and the one \<open>mprotect\<close> call makes
  read-only the bytes from the base of the throwaway segment up to the start of the
  persistent section.  When \<open>mprotect\<close> does not return 0 the \<open>always_assert\<close> ends the
  process.
\<close>

theorem guard_ctor_protects:
  assumes "tl_base s = Some b0"
  shows "(mprotect_result env (Suc (length (sys_log s))) = 0 \<longrightarrow>
           (\<exists>s'. AssertVMUnused_ctor env this s = Inr s' \<and>
              tl_base s' = Some (mmap_result env (length (sys_log s))) \<and>
              tl_regState s' = DIRTY \<and> is_protected s' \<and>
              sys_log s' =
                Mprotect (mmap_result env (length (sys_log s)))
                  (persistentSection_begin env (mmap_result env (length (sys_log s)))
                    - mmap_result env (length (sys_log s))) PROT_READ
                # ThreadInit None (mmap_result env (length (sys_log s))) # sys_log s)) \<and>
         (mprotect_result env (Suc (length (sys_log s))) \<noteq> 0 \<longrightarrow>
            AssertVMUnused_ctor env this s = Inl (AlwaysAssertFailed ''result == 0''))"
  using assms by (simp add: AssertVMUnused_ctor_def protect_eq Let_def)

text \<open>
  A guard at \<open>0x7FFF0000\<close> on the thread bound at \<open>0x7E0000000000\<close>: once with an
  \<open>mprotect\<close> that succeeds, once with one that returns \<open>-1\<close>.
\<close>

theorem guard_ctor_protects_witness:
  "tl_base (p5_state CLEAN) = Some 0x7E0000000000 \<and>
   AssertVMUnused_ctor (p5_env True p5_callee) 0x7FFF0000 (p5_state CLEAN) = Inr p5_guarded \<and>
   AssertVMUnused_ctor p5_env_mprotect_fails 0x7FFF0000 (p5_state CLEAN) =
     Inl (AlwaysAssertFailed ''result == 0'')"
  using guard_ctor_protects [of "p5_state CLEAN" "0x7E0000000000" "p5_env True p5_callee"
      "0x7FFF0000"]
    guard_ctor_protects [of "p5_state CLEAN" "0x7E0000000000" p5_env_mprotect_fails "0x7FFF0000"]
  by (simp add: p5_env_def p5_state_def p5_env_mprotect_fails_def p5_guarded_def
      AssertVMUnused_ctor_def protect_eq Let_def)

text \<open>
  Claim C3.  A guard constructed while a segment is bound, any disablers constructed and
  destructed inside its lifetime, nested to any depth and in any number, and then the
  guard's destructor: whenever this block runs to its end, the triple of segment handle,
  register-state flag and protection flag is the one found before the guard was
  constructed.  The block does run to its end when every \<open>mprotect\<close> succeeds and the
  top-level reference, if set on entry, designates a guard object.
\<close>

theorem guard_scope_restores_triple:
  assumes "tl_base s \<noteq> None"
  shows "(\<forall>s'. guard_scope env this ds s = Inr s' \<longrightarrow> triple s' = triple s) \<and>
         ((\<forall>k. mprotect_result env k = 0) \<and> top_guard_live s \<longrightarrow>
            (\<exists>s'. guard_scope env this ds s = Inr s'))"
proof -
  from assms obtain b where b: "tl_base s = Some b" by auto
  have restore: "\<exists>s3. AssertVMUnused_dtor this s2 = Inr s3 \<and> triple s3 = triple s"
    if c: "AssertVMUnused_ctor env this s = Inr s1" and r: "run_scopes env ds s1 = Inr s2"
    for s1 s2
  proof -
    have "guardAt s2 this = guardAt s1 this"
      using run_scopes_frame [OF r] by simp
    also have "\<dots> = Some \<lparr>m_oldBase = Some b, m_oldState = tl_regState s,
        m_oldProt = is_protected s\<rparr>"
      using guard_ctor_saved [OF c] b by simp
    finally show ?thesis
      using guard_dtor_restores [of s2 this b "tl_regState s" "is_protected s"] b
      by (simp add: triple_def)
  qed
  have part1: "\<forall>s'. guard_scope env this ds s = Inr s' \<longrightarrow> triple s' = triple s"
  proof (intro allI impI)
    fix s' assume g: "guard_scope env this ds s = Inr s'"
    then obtain s1 s2 where c: "AssertVMUnused_ctor env this s = Inr s1"
      and r: "run_scopes env ds s1 = Inr s2" and d: "AssertVMUnused_dtor this s2 = Inr s'"
      by (auto simp: guard_scope_def split: sum.splits)
    from restore [OF c r] d show "triple s' = triple s" by auto
  qed
  have part2: "\<exists>s'. guard_scope env this ds s = Inr s'"
    if ok: "\<forall>k. mprotect_result env k = 0" and live: "top_guard_live s"
  proof -
    from guard_ctor_total [OF ok] obtain s1
      where c: "AssertVMUnused_ctor env this s = Inr s1" ..
    from run_scopes_total [OF ok guard_ctor_live [OF c live]] obtain s2
      where r: "run_scopes env ds s1 = Inr s2" ..
    from restore [OF c r] obtain s3 where "AssertVMUnused_dtor this s2 = Inr s3" by auto
    with c r show ?thesis by (simp add: guard_scope_def)
  qed
  from part1 part2 show ?thesis by blast
qed

text \<open>
  A guard whose lifetime holds a disabler with a disabler inside it, followed by a
  second disabler.
\<close>

theorem guard_scope_restores_triple_witness:
  "tl_base (p5_state CLEAN) \<noteq> None \<and>
   (\<exists>s'. guard_scope (p5_env True p5_callee) 0x7FFF0000 [DScope [DScope []], DScope []]
            (p5_state CLEAN) = Inr s' \<and>
          triple s' = (Some 0x7E0000000000, CLEAN, False))"
proof -
  have h: "tl_base (p5_state CLEAN) \<noteq> None" by (simp add: p5_state_def)
  have ok: "\<forall>k. mprotect_result (p5_env True p5_callee) k = 0" by (simp add: p5_env_def)
  have live: "top_guard_live (p5_state CLEAN)" by (simp add: top_guard_live_def p5_state_def)
  have t: "triple (p5_state CLEAN) = (Some 0x7E0000000000, CLEAN, False)"
    by (simp add: triple_def p5_state_def)
  from guard_scope_restores_triple [OF h, of "p5_env True p5_callee" "0x7FFF0000"
      "[DScope [DScope []], DScope []]"] ok live t h
  show ?thesis by auto
qed

text \<open>
  Claim C4.  A guard constructed while the top-level reference points at another guard
  leaves the reference where it is; a guard's destructor changes the reference only when
  it points at that very guard, and then clears it.  So with a first guard at \<open>g1\<close>
  constructed on a bound thread with no guard active, and a second at \<open>g2\<close> constructed
  and destructed inside its lifetime, the reference is \<open>g1\<close> from the first constructor
  until the first guard's destructor, which clears it.
\<close>

theorem second_guard_not_top_level:
  "(tl_top_prot u = Some g1 \<longrightarrow> AssertVMUnused_ctor env g2 u = Inr u' \<longrightarrow>
      tl_top_prot u' = Some g1) \<and>
   (AssertVMUnused_dtor this v = Inr v' \<longrightarrow> tl_top_prot v' \<noteq> tl_top_prot v \<longrightarrow>
      tl_top_prot v = Some this \<and> tl_top_prot v' = None) \<and>
   (tl_top_prot s = None \<longrightarrow> tl_base s \<noteq> None \<longrightarrow> g1 \<noteq> g2 \<longrightarrow>
    AssertVMUnused_ctor env g1 s = Inr t1 \<longrightarrow> AssertVMUnused_ctor env g2 t1 = Inr t2 \<longrightarrow>
    AssertVMUnused_dtor g2 t2 = Inr t3 \<longrightarrow> AssertVMUnused_dtor g1 t3 = Inr t4 \<longrightarrow>
      tl_top_prot t1 = Some g1 \<and> tl_top_prot t2 = Some g1 \<and>
      tl_top_prot t3 = Some g1 \<and> tl_top_prot t4 = None)"
proof (intro conjI impI)
  assume "tl_top_prot u = Some g1" "AssertVMUnused_ctor env g2 u = Inr u'"
  then show "tl_top_prot u' = Some g1" by (simp add: ctor_top)
next
  assume d: "AssertVMUnused_dtor this v = Inr v'" and n: "tl_top_prot v' \<noteq> tl_top_prot v"
  from d obtain G where "guardAt v this = Some G"
    by (auto simp: AssertVMUnused_dtor_def split: option.splits)
  with d have "tl_top_prot v' =
      (if m_oldBase G \<noteq> None \<and> tl_top_prot v = Some this then None else tl_top_prot v)"
    by (rule dtor_top)
  with n show "tl_top_prot v = Some this" "tl_top_prot v' = None"
    by (auto split: if_splits)
next
  assume a: "tl_top_prot s = None" "tl_base s \<noteq> None" "g1 \<noteq> g2"
    and c1: "AssertVMUnused_ctor env g1 s = Inr t1"
    and c2: "AssertVMUnused_ctor env g2 t1 = Inr t2"
    and d2: "AssertVMUnused_dtor g2 t2 = Inr t3"
    and d1: "AssertVMUnused_dtor g1 t3 = Inr t4"
  from c1 a show t1: "tl_top_prot t1 = Some g1" by (simp add: ctor_top)
  from c2 t1 show t2: "tl_top_prot t2 = Some g1" by (simp add: ctor_top)
  from d2 obtain G2 where G2: "guardAt t2 g2 = Some G2"
    by (auto simp: AssertVMUnused_dtor_def split: option.splits)
  from dtor_top [OF d2 G2] t2 a show t3: "tl_top_prot t3 = Some g1" by simp
  have g1s: "guardAt t1 g1 = Some \<lparr>m_oldBase = tl_base s, m_oldState = tl_regState s,
      m_oldProt = is_protected s\<rparr>"
    using guard_ctor_saved [OF c1] by simp
  have "guardAt t2 g1 = guardAt t1 g1"
    using guard_ctor_saved [OF c2] a by simp
  moreover have "guardAt t3 g1 = guardAt t2 g1"
    using guard_dtor_frame [OF d2] by simp
  ultimately have G1: "guardAt t3 g1 = Some \<lparr>m_oldBase = tl_base s, m_oldState = tl_regState s,
      m_oldProt = is_protected s\<rparr>" using g1s by simp
  from dtor_top [OF d1 G1] t3 a show "tl_top_prot t4 = None" by simp
qed

text \<open>A first guard at \<open>0x7FFF0000\<close> and a second at \<open>0x7FFE0000\<close> inside its lifetime.\<close>

theorem second_guard_not_top_level_witness:
  "tl_top_prot (p5_state CLEAN) = None \<and> tl_base (p5_state CLEAN) \<noteq> None \<and>
   (\<exists>t1 t2 t3 t4.
      AssertVMUnused_ctor (p5_env True p5_callee) 0x7FFF0000 (p5_state CLEAN) = Inr t1 \<and>
      AssertVMUnused_ctor (p5_env True p5_callee) 0x7FFE0000 t1 = Inr t2 \<and>
      AssertVMUnused_dtor 0x7FFE0000 t2 = Inr t3 \<and>
      AssertVMUnused_dtor 0x7FFF0000 t3 = Inr t4 \<and>
      tl_top_prot t1 = Some 0x7FFF0000 \<and> tl_top_prot t2 = Some 0x7FFF0000 \<and>
      tl_top_prot t3 = Some 0x7FFF0000 \<and> tl_top_prot t4 = None \<and>
      tl_top_prot t4 \<noteq> tl_top_prot t3)"
proof -
  let ?E = "p5_env True p5_callee"
  have ok: "\<forall>k. mprotect_result ?E k = 0" by (simp add: p5_env_def)
  have h1: "tl_top_prot (p5_state CLEAN) = None" and h2: "tl_base (p5_state CLEAN) \<noteq> None"
    by (simp_all add: p5_state_def)
  have h3: "(0x7FFF0000 :: addr) \<noteq> 0x7FFE0000" by simp
  from guard_ctor_total [OF ok] obtain t1
    where c1: "AssertVMUnused_ctor ?E 0x7FFF0000 (p5_state CLEAN) = Inr t1" ..
  from guard_ctor_total [OF ok] obtain t2
    where c2: "AssertVMUnused_ctor ?E 0x7FFE0000 t1 = Inr t2" ..
  have "guardAt t2 0x7FFE0000 \<noteq> None" using guard_ctor_saved [OF c2] by simp
  from guard_dtor_total [OF this] obtain t3
    where d2: "AssertVMUnused_dtor 0x7FFE0000 t2 = Inr t3" ..
  have "guardAt t3 0x7FFF0000 \<noteq> None"
    using guard_dtor_frame [OF d2] guard_ctor_saved [OF c2] guard_ctor_saved [OF c1] by simp
  from guard_dtor_total [OF this] obtain t4
    where d1: "AssertVMUnused_dtor 0x7FFF0000 t3 = Inr t4" ..
  from second_guard_not_top_level [where s = "p5_state CLEAN" and env = ?E
      and ?g1.0 = "0x7FFF0000" and ?g2.0 = "0x7FFE0000"
      and ?t1.0 = t1 and ?t2.0 = t2 and ?t3.0 = t3 and ?t4.0 = t4
      and u = t1 and u' = t2 and this = "0x7FFF0000" and v = t3 and v' = t4]
    h1 h2 h3 c1 c2 d2 d1
  have r: "tl_top_prot t1 = Some 0x7FFF0000 \<and> tl_top_prot t2 = Some 0x7FFF0000 \<and>
      tl_top_prot t3 = Some 0x7FFF0000 \<and> tl_top_prot t4 = None"
    by blast
  then have "tl_top_prot t4 \<noteq> tl_top_prot t3" by simp
  with r c1 c2 d2 d1 h1 h2 show ?thesis by blast
qed

text \<open>
  Claim C5.  A guard constructed while no segment is bound changes no thread-local
  variable, makes no external call and does not become the top-level guard: the
  constructor only initialises the members of the new object (with a null \<open>m_oldBase\<close>),
  and the destructor returns at once.  Triple, top-level reference, register bundle and
  log are what they were.
\<close>

theorem guard_noop_without_segment:
  assumes "tl_base s = None"
  shows "\<exists>s1. AssertVMUnused_ctor env this s = Inr s1 \<and>
           s1 = s\<lparr>guardAt := (guardAt s)(this \<mapsto>
                  \<lparr>m_oldBase = None, m_oldState = tl_regState s, m_oldProt = is_protected s\<rparr>)\<rparr> \<and>
           AssertVMUnused_dtor this s1 = Inr s1 \<and>
           triple s1 = triple s \<and> tl_top_prot s1 = tl_top_prot s \<and>
           vmRegs s1 = vmRegs s \<and> sys_log s1 = sys_log s"
  using assms by (simp add: AssertVMUnused_ctor_def AssertVMUnused_dtor_def Let_def triple_def)

text \<open>The thread of the two-frame chain with its segment unbound.\<close>

theorem guard_noop_without_segment_witness:
  "tl_base ((p5_state DIRTY)\<lparr>tl_base := None\<rparr>) = None \<and>
   (\<exists>s1. AssertVMUnused_ctor (p5_env True p5_callee) 0x7FFF0000
            ((p5_state DIRTY)\<lparr>tl_base := None\<rparr>) = Inr s1 \<and>
      AssertVMUnused_dtor 0x7FFF0000 s1 = Inr s1 \<and>
      triple s1 = (None, DIRTY, False) \<and> tl_top_prot s1 = None \<and> sys_log s1 = [])"
  using guard_noop_without_segment [of "(p5_state DIRTY)\<lparr>tl_base := None\<rparr>"
      "p5_env True p5_callee" "0x7FFF0000"]
  by (simp add: p5_state_def triple_def)

section \<open>Release of an anchor\<close>

text \<open>
  Claim C6.  The destructor of an anchor, whichever constructor built it and whatever
  state \<open>t\<close> the thread is in when it runs, sets the flag to the value found before the
  construction and leaves the register bundle of \<open>t\<close> as it is.  For two nested full
  synchronisations the flag is \<open>CLEAN\<close> after the inner constructor and after the inner
  release, and the outer release gives the flag found before the outer construction.
\<close>

theorem anchor_release_restores_flag:
  "(VMRegAnchor_full env s = Inr (a, s1) \<longrightarrow>
      tl_regState (VMRegAnchor_dtor a t) = tl_regState s \<and>
      vmRegs (VMRegAnchor_dtor a t) = vmRegs t) \<and>
   (VMRegAnchor_ar env ar s = Inr (a', s1') \<longrightarrow>
      tl_regState (VMRegAnchor_dtor a' t) = tl_regState s \<and>
      vmRegs (VMRegAnchor_dtor a' t) = vmRegs t) \<and>
   (VMRegAnchor_full env s = Inr (a, s1) \<longrightarrow> VMRegAnchor_full env s1 = Inr (b, s2) \<longrightarrow>
      tl_regState s2 = CLEAN \<and>
      tl_regState (VMRegAnchor_dtor b s2) = CLEAN \<and>
      tl_regState (VMRegAnchor_dtor a (VMRegAnchor_dtor b s2)) = tl_regState s)"
  by (auto simp: VMRegAnchor_full_def VMRegAnchor_ar_def VMRegAnchor_dtor_def syncVMRegs_def
      assert_native_stack_aligned_def Let_def split: if_splits option.splits sum.splits)

text \<open>
  Both constructors on the two-frame chain with the flag \<open>DIRTY\<close>, and a second full
  synchronisation inside the first: the inner release gives \<open>CLEAN\<close>, the outer \<open>DIRTY\<close>,
  and the bundle written by the synchroniser stays.
\<close>

theorem anchor_release_restores_flag_witness:
  "VMRegAnchor_full (p5_env True p5_callee) (p5_state DIRTY) =
     Inr (\<lparr>m_old = DIRTY\<rparr>, (p5_state CLEAN)\<lparr>vmRegs := p5_regs\<rparr>) \<and>
   VMRegAnchor_full (p5_env True p5_callee) ((p5_state CLEAN)\<lparr>vmRegs := p5_regs\<rparr>) =
     Inr (\<lparr>m_old = CLEAN\<rparr>, (p5_state CLEAN)\<lparr>vmRegs := p5_regs\<rparr>) \<and>
   VMRegAnchor_ar (p5_env True p5_callee) 0x1000 (p5_state DIRTY) =
     Inr (\<lparr>m_old = DIRTY\<rparr>, (p5_state CLEAN)\<lparr>vmRegs := p5_regs\<rparr>) \<and>
   tl_regState (VMRegAnchor_dtor \<lparr>m_old = CLEAN\<rparr> ((p5_state CLEAN)\<lparr>vmRegs := p5_regs\<rparr>)) = CLEAN \<and>
   tl_regState (VMRegAnchor_dtor \<lparr>m_old = DIRTY\<rparr>
     (VMRegAnchor_dtor \<lparr>m_old = CLEAN\<rparr> ((p5_state CLEAN)\<lparr>vmRegs := p5_regs\<rparr>))) = DIRTY \<and>
   vmRegs (VMRegAnchor_dtor \<lparr>m_old = DIRTY\<rparr> ((p5_state CLEAN)\<lparr>vmRegs := p5_regs\<rparr>)) = p5_regs"
  using anchor_release_restores_flag [where env = "p5_env True p5_callee"
      and s = "p5_state DIRTY" and a = "\<lparr>m_old = DIRTY\<rparr>"
      and ?s1.0 = "(p5_state CLEAN)\<lparr>vmRegs := p5_regs\<rparr>"
      and b = "\<lparr>m_old = CLEAN\<rparr>" and ?s2.0 = "(p5_state CLEAN)\<lparr>vmRegs := p5_regs\<rparr>"
      and ar = "0x1000" and a' = "\<lparr>m_old = DIRTY\<rparr>"
      and s1' = "(p5_state CLEAN)\<lparr>vmRegs := p5_regs\<rparr>"
      and t = "(p5_state CLEAN)\<lparr>vmRegs := p5_regs\<rparr>"]
  by (simp add: VMRegAnchor_full_def VMRegAnchor_ar_def VMRegAnchor_dtor_def syncVMRegs_def
      assert_native_stack_aligned_def Let_def p5_env_def p5_state_def p5_regs_def
      p5_callee_def p5_caller_def)

section \<open>The assertions of the frame-local constructor\<close>

text \<open>
  Claim C7, as the code has it.  The check of the flag is an \<open>assert\<close>.  In a build with
  assertions compiled in, the frame-local constructor entered with the flag \<open>CLEAN\<close>
  fails at \<open>assert(tl_regState == VMRegState::DIRTY)\<close> and never performs the
  reconstruction: it does not return, and the thread state when the process is ended is
  the state on entry, nothing having been written.
\<close>

theorem frame_local_rejects_CLEAN:
  assumes "assertions_enabled env" and "tl_regState s = CLEAN"
  shows "VMRegAnchor_ar_run env ar s =
           (Inl (AssertFailed ''tl_regState == VMRegState::DIRTY''), s) \<and>
         VMRegAnchor_ar env ar s = Inl (AssertFailed ''tl_regState == VMRegState::DIRTY'')"
  using assms by (simp add: VMRegAnchor_ar_def VMRegAnchor_ar_run_def)

text \<open>The two-frame chain with the flag \<open>CLEAN\<close>, assertions compiled in.\<close>

theorem frame_local_rejects_CLEAN_witness:
  "assertions_enabled (p5_env True p5_callee) \<and> tl_regState (p5_state CLEAN) = CLEAN \<and>
   VMRegAnchor_ar_run (p5_env True p5_callee) 0x1000 (p5_state CLEAN) =
     (Inl (AssertFailed ''tl_regState == VMRegState::DIRTY''), p5_state CLEAN) \<and>
   VMRegAnchor_ar (p5_env True p5_callee) 0x1000 (p5_state CLEAN) =
     Inl (AssertFailed ''tl_regState == VMRegState::DIRTY'')"
  using frame_local_rejects_CLEAN [of "p5_env True p5_callee" "p5_state CLEAN" "0x1000"]
  by (simp add: p5_env_def p5_state_def)

text \<open>
  The same call on the two-frame chain in a build that defines \<open>NDEBUG\<close>: the
  constructor returns, with the bundle reconstructed and the anchor holding \<open>CLEAN\<close> as
  the flag to restore.
\<close>

theorem frame_local_on_CLEAN_unchecked:
  "tl_regState (p5_state CLEAN) = CLEAN \<and>
   VMRegAnchor_ar (p5_env False p5_callee) 0x1000 (p5_state CLEAN) =
     Inr (\<lparr>m_old = CLEAN\<rparr>, (p5_state CLEAN)\<lparr>vmRegs := p5_regs\<rparr>)"
  by (simp add: VMRegAnchor_ar_def Let_def p5_env_def p5_state_def p5_callee_def p5_caller_def
      p5_regs_def)

text \<open>
  Claim C8, as the code has it.  The check of \<open>ar->resumed()\<close> is an \<open>assert\<close>.  In a
  build with assertions compiled in, the frame-local constructor on a resumed frame never
  returns, and when the process is ended the register bundle is the one found on entry:
  the reconstruction is not performed.  Whenever the outer frame is readable the process
  is ended by a failed assertion: \<open>assert(!ar->resumed())\<close> when the flag was \<open>DIRTY\<close> on
  entry, the assertion on the flag otherwise.
\<close>

theorem frame_local_rejects_resumed:
  assumes "assertions_enabled env" and "actRecAt env ar = Some a" and "resumed a"
  shows "(\<exists>e t. VMRegAnchor_ar_run env ar s = (Inl e, t) \<and> vmRegs t = vmRegs s) \<and>
         (\<exists>e. VMRegAnchor_ar env ar s = Inl e) \<and>
         (getOuterVMFrame env ar = Some p \<longrightarrow> actRecAt env p = Some c \<longrightarrow>
            VMRegAnchor_ar_run env ar s =
              (if tl_regState s = DIRTY
               then (Inl (AssertFailed ''!ar->resumed()''), s\<lparr>tl_regState := CLEAN\<rparr>)
               else (Inl (AssertFailed ''tl_regState == VMRegState::DIRTY''), s)))"
  using assms
  by (simp add: VMRegAnchor_ar_def VMRegAnchor_ar_run_def Let_def split: option.splits)

text \<open>The two-frame chain with a resumed callee, assertions compiled in.\<close>

theorem frame_local_rejects_resumed_witness:
  "assertions_enabled (p5_env True p5_resumed) \<and>
   actRecAt (p5_env True p5_resumed) 0x1000 = Some p5_resumed \<and> resumed p5_resumed \<and>
   tl_regState (p5_state DIRTY) = DIRTY \<and>
   getOuterVMFrame (p5_env True p5_resumed) 0x1000 = Some 0x2000 \<and>
   actRecAt (p5_env True p5_resumed) 0x2000 = Some p5_caller \<and>
   VMRegAnchor_ar_run (p5_env True p5_resumed) 0x1000 (p5_state DIRTY) =
     (Inl (AssertFailed ''!ar->resumed()''), p5_state CLEAN) \<and>
   vmRegs (p5_state CLEAN) = vmRegs (p5_state DIRTY) \<and>
   (\<exists>e. VMRegAnchor_ar (p5_env True p5_resumed) 0x1000 (p5_state DIRTY) = Inl e)"
  using frame_local_rejects_resumed [of "p5_env True p5_resumed" "0x1000" p5_resumed
      "p5_state DIRTY" "0x2000" p5_caller]
  by (simp add: p5_env_def p5_state_def p5_resumed_def p5_callee_def)

text \<open>
  The same call on the two-frame chain in a build that defines \<open>NDEBUG\<close>: the
  constructor returns with the bundle reconstructed from the resumed frame.
\<close>

theorem frame_local_on_resumed_unchecked:
  "resumed p5_resumed \<and>
   actRecAt (p5_env False p5_resumed) 0x1000 = Some p5_resumed \<and>
   VMRegAnchor_ar (p5_env False p5_resumed) 0x1000 (p5_state DIRTY) =
     Inr (\<lparr>m_old = DIRTY\<rparr>, (p5_state DIRTY)\<lparr>tl_regState := CLEAN, vmRegs := p5_regs\<rparr>)"
  by (simp add: VMRegAnchor_ar_def Let_def p5_env_def p5_state_def p5_callee_def p5_caller_def
      p5_regs_def p5_resumed_def)

section \<open>The disabler\<close>

text \<open>
  Claim C9.  While the top-level reference points at a guard, the disabler's constructor
  calls \<open>deprotect\<close> with the three values saved in that guard: the segment in use is
  torn down, the triple becomes the guard's saved triple, and the top-level reference is
  unchanged.  The disabler's destructor then runs \<open>protect\<close>, the top-level reference
  still pointing at the same guard: a new throwaway segment is bound and made read-only
  up to its persistent section, the flag is \<open>DIRTY\<close> and \<open>is_protected\<close> is true, or the
  process ends if \<open>mprotect\<close> fails.
\<close>

theorem disabler_deprotects_and_reprotects:
  assumes "tl_top_prot s = Some g" and "guardAt s g = Some G"
  shows "\<exists>s1. AssertVMUnusedDisabler_ctor s = Inr s1 \<and>
           triple s1 = (m_oldBase G, m_oldState G, m_oldProt G) \<and>
           tl_top_prot s1 = Some g \<and>
           sys_log s1 = ThreadExit (tl_base s) # sys_log s \<and>
           (mprotect_result env (length (sys_log s) + 2) = 0 \<longrightarrow>
             (\<exists>s2. AssertVMUnusedDisabler_dtor env s1 = Inr s2 \<and>
                tl_top_prot s2 = Some g \<and>
                triple s2 = (Some (mmap_result env (Suc (length (sys_log s)))), DIRTY, True) \<and>
                sys_log s2 =
                  Mprotect (mmap_result env (Suc (length (sys_log s))))
                    (persistentSection_begin env (mmap_result env (Suc (length (sys_log s))))
                      - mmap_result env (Suc (length (sys_log s)))) PROT_READ
                  # ThreadInit None (mmap_result env (Suc (length (sys_log s)))) # sys_log s1)) \<and>
           (mprotect_result env (length (sys_log s) + 2) \<noteq> 0 \<longrightarrow>
              AssertVMUnusedDisabler_dtor env s1 = Inl (AlwaysAssertFailed ''result == 0''))"
  using assms
  by (simp add: AssertVMUnusedDisabler_ctor_def AssertVMUnusedDisabler_dtor_def
      protect_eq deprotect_eq triple_def)

text \<open>
  A disabler on the guarded thread: once with an \<open>mprotect\<close> that succeeds, once with one
  that returns \<open>-1\<close>.
\<close>

theorem disabler_deprotects_and_reprotects_witness:
  "tl_top_prot p5_guarded = Some 0x7FFF0000 \<and>
   guardAt p5_guarded 0x7FFF0000 =
     Some \<lparr>m_oldBase = Some 0x7E0000000000, m_oldState = CLEAN, m_oldProt = False\<rparr> \<and>
   (\<exists>s1. AssertVMUnusedDisabler_ctor p5_guarded = Inr s1 \<and>
      triple s1 = (Some 0x7E0000000000, CLEAN, False) \<and>
      tl_top_prot s1 = Some 0x7FFF0000 \<and>
      (\<exists>s2. AssertVMUnusedDisabler_dtor (p5_env True p5_callee) s1 = Inr s2 \<and>
         tl_top_prot s2 = Some 0x7FFF0000 \<and>
         triple s2 = (Some 0x7F0000300000, DIRTY, True)) \<and>
      AssertVMUnusedDisabler_dtor p5_env_mprotect_fails s1 = Inl (AlwaysAssertFailed ''result == 0''))"
  using disabler_deprotects_and_reprotects [of p5_guarded "0x7FFF0000"
      "\<lparr>m_oldBase = Some 0x7E0000000000, m_oldState = CLEAN, m_oldProt = False\<rparr>"
      "p5_env True p5_callee"]
    disabler_deprotects_and_reprotects [of p5_guarded "0x7FFF0000"
      "\<lparr>m_oldBase = Some 0x7E0000000000, m_oldState = CLEAN, m_oldProt = False\<rparr>"
      p5_env_mprotect_fails]
  by (auto simp: p5_guarded_def p5_env_def p5_env_mprotect_fails_def)

text \<open>
  Claim C10.  While the top-level reference is null, the disabler's constructor and its
  destructor return the thread state they were given: no thread-local variable is
  written, no segment call and no \<open>mprotect\<close> is made, whatever the triple holds.
\<close>

theorem disabler_noop_without_guard:
  assumes "tl_top_prot s = None"
  shows "AssertVMUnusedDisabler_ctor s = Inr s \<and> AssertVMUnusedDisabler_dtor env s = Inr s"
  using assms by (simp add: AssertVMUnusedDisabler_ctor_def AssertVMUnusedDisabler_dtor_def)

text \<open>The thread of the two-frame chain, on which no guard is active.\<close>

theorem disabler_noop_without_guard_witness:
  "tl_top_prot (p5_state CLEAN) = None \<and>
   AssertVMUnusedDisabler_ctor (p5_state CLEAN) = Inr (p5_state CLEAN) \<and>
   AssertVMUnusedDisabler_dtor (p5_env True p5_callee) (p5_state CLEAN) = Inr (p5_state CLEAN)"
  using disabler_noop_without_guard [of "p5_state CLEAN" "p5_env True p5_callee"]
  by (simp add: p5_state_def)

end
